theory Spec2Isabelle
  imports Main "HOL-Library.Word"
begin

section \<open>Go values shared by the packages\<close>

text \<open>
  Go's \<open>int\<close> is 64 bits wide on the platforms qri is built for; \<open>int32\<close> and
  \<open>int64\<close> are the flatbuffer field widths. A conversion to a narrower type keeps
  the low bits (\<open>ucast\<close>), a conversion to a wider signed type extends the sign
  (\<open>scast\<close>). Strings are byte strings, so \<open>len\<close> is \<open>length\<close>.
\<close>

type_synonym go_int = "64 word"
type_synonym int32 = "32 word"
type_synonym int64 = "64 word"

text \<open>
  \<open>time.Time\<close>, as far as the source uses it: \<open>t.Unix()\<close> gives the whole seconds
  since the Unix epoch and \<open>time.Unix(sec, nsec)\<close> builds an instant. The zero
  \<open>time.Time\<close> is 0001-01-01 00:00:00 UTC, 62135596800 seconds before the epoch.
\<close>

record Time =
  t_sec :: int64
  t_nsec :: int64

definition Unix :: "Time \<Rightarrow> int64" where
  "Unix t = t_sec t"

definition time_Unix :: "int64 \<Rightarrow> int64 \<Rightarrow> Time" where
  "time_Unix s n = \<lparr>t_sec = s, t_nsec = n\<rparr>"

definition Time_zero :: Time where
  "Time_zero = \<lparr>t_sec = - 62135596800, t_nsec = 0\<rparr>"

text \<open>
  Errors are values. The sentinels are the package variables of the source;
  \<open>fmt.Errorf\<close> results carry their arguments; \<open>ErrExternal\<close> stands for an error
  produced by a collaborator outside the modelled files (file system, HTTP transport,
  key decoding, logbook).
\<close>

datatype error =
    ErrNoDscache
  | ErrInvalidProfileID
  | ErrRefNotFound
  | ErrUnknownUsername string
  | ErrDatasetRefNotFound string string
  | ErrNoLogbook
  | ErrDecodingPublicKey error
  | ErrMessage string
  | ErrExternal string

text \<open>A run-time panic ends the call; it is a result of its own, never an \<open>error\<close>.\<close>

datatype fault = NilPointerDereference | VectorIndexOutOfRange

section \<open>dsref: references and version infos\<close>

text \<open>\<open>dsref.Ref\<close>; a \<open>*dsref.Ref\<close> argument is a \<open>Ref option\<close>, \<open>None\<close> being nil.\<close>

record Ref =
  ref_Username :: string
  ref_ProfileID :: string
  ref_Name :: string
  ref_InitID :: string
  ref_Path :: string

text \<open>\<open>dsref.VersionInfo\<close>, with the fields that \<open>dscache.go\<close> reads and writes.\<close>

record VersionInfo =
  vi_InitID :: string
  vi_Username :: string
  vi_ProfileID :: string
  vi_Name :: string
  vi_Path :: string
  vi_Published :: bool
  vi_Foreign :: bool
  vi_MetaTitle :: string
  vi_ThemeList :: string
  vi_BodySize :: go_int
  vi_BodyRows :: go_int
  vi_BodyFormat :: string
  vi_NumErrors :: go_int
  vi_CommitTime :: Time
  vi_CommitCount :: go_int

text \<open>The zero value of the struct: what a composite literal leaves unset.\<close>

definition VersionInfo_zero :: VersionInfo where
  "VersionInfo_zero =
     \<lparr>vi_InitID = [], vi_Username = [], vi_ProfileID = [], vi_Name = [], vi_Path = [],
      vi_Published = False, vi_Foreign = False, vi_MetaTitle = [], vi_ThemeList = [],
      vi_BodySize = 0, vi_BodyRows = 0, vi_BodyFormat = [], vi_NumErrors = 0,
      vi_CommitTime = Time_zero, vi_CommitCount = 0\<rparr>"

section \<open>dscachefb: the flatbuffer tables\<close>

text \<open>
  The generated accessors of \<open>dscachefb\<close> are read-only views of the serialized
  buffer. The tables are modelled by their contents: a root holds the vector of user
  associations and the vector of reference entries.
\<close>

record UserAssoc =
  ua_Username :: string
  ua_ProfileID :: string

record RefEntryInfo =
  InitID :: string
  ProfileID :: string
  TopIndex :: int32
  CursorIndex :: int32
  PrettyName :: string
  Published :: bool
  Foreign :: bool
  MetaTitle :: string
  ThemeList :: string
  BodySize :: int64
  BodyRows :: int32
  BodyFormat :: string
  NumErrors :: int32
  CommitTime :: int64
  CommitCount :: int32
  HeadRef :: string
  FsiPath :: string

record DscacheFB =
  Users :: "UserAssoc list"
  Refs :: "RefEntryInfo list"

definition UsersLength :: "DscacheFB \<Rightarrow> nat" where
  "UsersLength root = length (Users root)"

definition RefsLength :: "DscacheFB \<Rightarrow> nat" where
  "RefsLength root = length (Refs root)"

text \<open>
  \<open>Root.Refs(&r, i)\<close>. Inside the vector it yields entry \<open>i\<close>. Past the end the
  generated accessor reads whatever bytes follow the vector; no caller may rely on
  that, so the model stops there with a fault instead of inventing an entry.
\<close>

definition RefsAt :: "DscacheFB \<Rightarrow> nat \<Rightarrow> fault + RefEntryInfo" where
  "RefsAt root i =
     (if i < RefsLength root then Inr (Refs root ! i) else Inl VectorIndexOutOfRange)"

section \<open>dscache: the cache object and its effects\<close>

text \<open>
  \<open>Buffer\<close> holds the serialized bytes that \<open>Root\<close> is a view of; both are nil in a
  cache that has no data. The serialized form is represented by the table it encodes.
\<close>

type_synonym buffer = "DscacheFB option"

record Dscache =
  Filename :: string
  Root :: "DscacheFB option"
  Buffer :: buffer
  CreateNewEnabled :: bool
  DefaultUsername :: string

text \<open>
  What the package does to the outside world: calls into the file system and lines
  handed to the logger. \<open>Rename\<close> is \<open>os.Rename\<close>; no function of the package
  calls it, it is listed so that its absence from a trace can be stated.
\<close>

datatype fs_op = WriteFile string buffer | Rename string string

datatype log_line = LogError error | LogBadPayload | LogNoFilename

record effects =
  fs_ops :: "fs_op list"
  log_lines :: "log_line list"

definition no_effects :: effects where
  "no_effects = \<lparr>fs_ops = [], log_lines = []\<rparr>"

text \<open>The outcome of \<open>ioutil.WriteFile(name, data, 0644)\<close> is a parameter \<open>wr\<close>.\<close>

type_synonym write_file = "string \<Rightarrow> buffer \<Rightarrow> error option"

text \<open>\<open>IsEmpty\<close> is nil-callable: the receiver is a \<open>Dscache option\<close>.\<close>

definition IsEmpty :: "Dscache option \<Rightarrow> bool" where
  "IsEmpty dp = (case dp of None \<Rightarrow> True | Some d \<Rightarrow> Root d = None)"

definition save :: "write_file \<Rightarrow> Dscache \<Rightarrow> effects \<Rightarrow> error option \<times> effects" where
  "save wr d fx =
     (if Filename d = []
      then (None, fx\<lparr>log_lines := log_lines fx @ [LogNoFilename]\<rparr>)
      else (wr (Filename d) (Buffer d),
            fx\<lparr>fs_ops := fs_ops fx @ [WriteFile (Filename d) (Buffer d)]\<rparr>))"

definition Assign ::
  "write_file \<Rightarrow> Dscache option \<Rightarrow> Dscache \<Rightarrow> effects \<Rightarrow>
     Dscache option \<times> error option \<times> effects" where
  "Assign wr dp other fx =
     (case dp of
        None \<Rightarrow> (None, Some ErrNoDscache, fx)
      | Some d \<Rightarrow>
          (let d' = d\<lparr>Root := Root other, Buffer := Buffer other\<rparr>;
               (e, fx') = save wr d' fx
           in (Some d', e, fx')))"

subsection \<open>Reading the cache\<close>

definition convertEntryToVersionInfo :: "RefEntryInfo \<Rightarrow> VersionInfo" where
  "convertEntryToVersionInfo r =
     \<lparr>vi_InitID = InitID r, vi_Username = [], vi_ProfileID = ProfileID r,
      vi_Name = PrettyName r, vi_Path = HeadRef r,
      vi_Published = Published r, vi_Foreign = Foreign r,
      vi_MetaTitle = MetaTitle r, vi_ThemeList = ThemeList r,
      vi_BodySize = BodySize r, vi_BodyRows = scast (BodyRows r),
      vi_BodyFormat = BodyFormat r, vi_NumErrors = scast (NumErrors r),
      vi_CommitTime = time_Unix (CommitTime r) 0,
      vi_CommitCount = scast (CommitCount r)\<rparr>"

text \<open>The inner loop of \<open>completeRef\<close>: the first user with the profile ID names the ref.\<close>

fun usernameOfProfile :: "UserAssoc list \<Rightarrow> Ref \<Rightarrow> Ref" where
  "usernameOfProfile [] ref = ref"
| "usernameOfProfile (u # us) ref =
     (if ua_ProfileID u = ref_ProfileID ref then ref\<lparr>ref_Username := ua_Username u\<rparr>
      else usernameOfProfile us ref)"

text \<open>The outer loop of \<open>completeRef\<close> over the entries still to visit.\<close>

fun completeRefFrom :: "UserAssoc list \<Rightarrow> RefEntryInfo list \<Rightarrow> Ref \<Rightarrow> Ref \<times> error option" where
  "completeRefFrom us [] ref = (ref, Some ErrRefNotFound)"
| "completeRefFrom us (r # rs) ref =
     (if InitID r = ref_InitID ref
      then (usernameOfProfile us
              (ref\<lparr>ref_Path := HeadRef r, ref_ProfileID := ProfileID r,
                   ref_Name := PrettyName r\<rparr>), None)
      else completeRefFrom us rs ref)"

definition completeRef :: "DscacheFB \<Rightarrow> Ref \<Rightarrow> Ref \<times> error option" where
  "completeRef root ref = completeRefFrom (Users root) (Refs root) ref"

text \<open>\<open>LookupByName\<close>: its \<open>ref\<close> is a copy, so the caller's ref is not changed.\<close>

fun profileOfUsername :: "UserAssoc list \<Rightarrow> Ref \<Rightarrow> Ref" where
  "profileOfUsername [] ref = ref"
| "profileOfUsername (u # us) ref =
     (if ref_Username ref = ua_Username u then ref\<lparr>ref_ProfileID := ua_ProfileID u\<rparr>
      else profileOfUsername us ref)"

fun lookupEntry :: "RefEntryInfo list \<Rightarrow> Ref \<Rightarrow> error + VersionInfo" where
  "lookupEntry [] ref = Inl (ErrDatasetRefNotFound (ref_Username ref) (ref_Name ref))"
| "lookupEntry (r # rs) ref =
     (if ProfileID r = ref_ProfileID ref \<and> PrettyName r = ref_Name ref
      then Inr (convertEntryToVersionInfo r)
      else lookupEntry rs ref)"

definition LookupByName :: "DscacheFB \<Rightarrow> Ref \<Rightarrow> error + VersionInfo" where
  "LookupByName root ref0 =
     (let ref = profileOfUsername (Users root) ref0
      in if ref_ProfileID ref = [] then Inl (ErrUnknownUsername (ref_Username ref))
         else lookupEntry (Refs root) ref)"

text \<open>
  \<open>ResolveRef\<close> returns the pair \<open>(string, error)\<close> and may write through the ref
  pointer, so the model returns the ref as the call leaves it as well. With a cache
  that has data, reading \<open>ref.InitID\<close> through a nil ref panics.
\<close>

definition ResolveRef ::
  "Dscache option \<Rightarrow> Ref option \<Rightarrow> fault + (Ref option \<times> string \<times> error option)" where
  "ResolveRef dp refp =
     (if IsEmpty dp then Inr (refp, [], Some ErrRefNotFound)
      else case dp of
        None \<Rightarrow> Inl NilPointerDereference
      | Some d \<Rightarrow>
         (case Root d of
            None \<Rightarrow> Inl NilPointerDereference
          | Some root \<Rightarrow>
             (case refp of
                None \<Rightarrow> Inl NilPointerDereference
              | Some ref \<Rightarrow>
                 if ref_InitID ref \<noteq> []
                 then (case completeRef root ref of (ref', e) \<Rightarrow> Inr (Some ref', [], e))
                 else (case LookupByName root ref of
                         Inl e \<Rightarrow> Inr (Some ref, [], Some ErrRefNotFound)
                       | Inr vi \<Rightarrow>
                          (let ref1 = ref\<lparr>ref_InitID := vi_InitID vi,
                                           ref_ProfileID := vi_ProfileID vi\<rparr>;
                               ref2 = (if ref_Path ref1 = [] then ref1\<lparr>ref_Path := vi_Path vi\<rparr>
                                       else ref1)
                           in Inr (Some ref2, [], None))))))"

subsection \<open>Building a cache\<close>

text \<open>
  Modelled from the spec: the \<open>Builder\<close> of the dscache package (\<open>NewBuilder\<close>,
  \<open>AddUser\<close>, \<open>AddDsVersionInfo\<close>, \<open>AddDsVersionInfoWithIndexes\<close>, \<open>Build\<close>) is not
  among the source files. Following the layout of section 4.3 it collects the
  \<open>Users\<close> and the \<open>Refs\<close> in the order they are added; an entry takes its fields
  from the version info, with the spec's field correspondence (\<open>PrettyName\<close> from
  \<open>Name\<close>, \<open>HeadRef\<close> from \<open>Path\<close>), and \<open>AddDsVersionInfo\<close> is the case of
  zeroed indexes. \<open>Build\<close> serializes into a fresh \<open>Dscache\<close> value.
\<close>

record Builder =
  b_users :: "UserAssoc list"
  b_refs :: "RefEntryInfo list"

definition NewBuilder :: Builder where
  "NewBuilder = \<lparr>b_users = [], b_refs = []\<rparr>"

definition AddUser :: "Builder \<Rightarrow> string \<Rightarrow> string \<Rightarrow> Builder" where
  "AddUser b username profileID =
     b\<lparr>b_users := b_users b @ [\<lparr>ua_Username = username, ua_ProfileID = profileID\<rparr>]\<rparr>"

definition entryOfVersionInfo :: "VersionInfo \<Rightarrow> go_int \<Rightarrow> go_int \<Rightarrow> RefEntryInfo" where
  "entryOfVersionInfo info topIndex cursorIndex =
     \<lparr>InitID = vi_InitID info, ProfileID = vi_ProfileID info,
      TopIndex = ucast topIndex, CursorIndex = ucast cursorIndex,
      PrettyName = vi_Name info,
      Published = vi_Published info, Foreign = vi_Foreign info,
      MetaTitle = vi_MetaTitle info, ThemeList = vi_ThemeList info,
      BodySize = vi_BodySize info, BodyRows = ucast (vi_BodyRows info),
      BodyFormat = vi_BodyFormat info, NumErrors = ucast (vi_NumErrors info),
      CommitTime = Unix (vi_CommitTime info),
      CommitCount = ucast (vi_CommitCount info),
      HeadRef = vi_Path info, FsiPath = []\<rparr>"

definition AddDsVersionInfoWithIndexes ::
  "Builder \<Rightarrow> VersionInfo \<Rightarrow> go_int \<Rightarrow> go_int \<Rightarrow> Builder" where
  "AddDsVersionInfoWithIndexes b info topIndex cursorIndex =
     b\<lparr>b_refs := b_refs b @ [entryOfVersionInfo info topIndex cursorIndex]\<rparr>"

definition AddDsVersionInfo :: "Builder \<Rightarrow> VersionInfo \<Rightarrow> Builder" where
  "AddDsVersionInfo b info = AddDsVersionInfoWithIndexes b info 0 0"

definition Build :: "Builder \<Rightarrow> Dscache" where
  "Build b =
     (let root = \<lparr>Users = b_users b, Refs = b_refs b\<rparr>
      in \<lparr>Filename = [], Root = Some root, Buffer = Some root,
          CreateNewEnabled = False, DefaultUsername = []\<rparr>)"

text \<open>
  Modelled from the spec: \<open>copyUserAssociationList\<close>,
  \<open>copyReferenceListWithReplacement\<close> and \<open>finishBuilding\<close> are methods of
  \<open>Dscache\<close> defined outside the source files. Per section 4.3 an update rebuilds
  the buffer wholesale, "replacing or omitting the affected entry": users are copied
  as they are; every entry is copied as it is unless the match function accepts it;
  a matching entry is left out when the replace function is nil, and otherwise
  rebuilt by starting from the existing entry and letting the replace function add
  the fields it changes.
\<close>

definition copyUserAssociationList :: "DscacheFB \<Rightarrow> UserAssoc list" where
  "copyUserAssociationList root = Users root"

fun copyRefs ::
  "(RefEntryInfo \<Rightarrow> bool) \<Rightarrow> (RefEntryInfo \<Rightarrow> RefEntryInfo) option \<Rightarrow>
     RefEntryInfo list \<Rightarrow> RefEntryInfo list" where
  "copyRefs findMatch replace [] = []"
| "copyRefs findMatch replace (r # rs) =
     (if findMatch r
      then (case replace of
              None \<Rightarrow> copyRefs findMatch replace rs
            | Some f \<Rightarrow> f r # copyRefs findMatch replace rs)
      else r # copyRefs findMatch replace rs)"

definition copyReferenceListWithReplacement ::
  "DscacheFB \<Rightarrow> (RefEntryInfo \<Rightarrow> bool) \<Rightarrow> (RefEntryInfo \<Rightarrow> RefEntryInfo) option \<Rightarrow>
     RefEntryInfo list" where
  "copyReferenceListWithReplacement root findMatch replace =
     copyRefs findMatch replace (Refs root)"

definition finishBuilding :: "UserAssoc list \<Rightarrow> RefEntryInfo list \<Rightarrow> DscacheFB \<times> buffer" where
  "finishBuilding users refs =
     (let root = \<lparr>Users = users, Refs = refs\<rparr> in (root, Some root))"

subsection \<open>Events and the handler\<close>

text \<open>
  \<open>event.Event\<close>: a type tag and a payload of Go type \<open>interface{}\<close>; the payload's
  dynamic type is a constructor. The rename payload of section 4.2 has its own type.
\<close>

datatype EventType =
    ETDatasetNameInit
  | ETLogbookWriteCommit
  | ETDatasetDeleteAll
  | ETDatasetRename
  | ETDatasetCreateLink
  | ETOther

record DsRename =
  rn_InitID :: string
  rn_OldName :: string
  rn_NewName :: string

datatype payload =
    PVersionInfo VersionInfo
  | PString string
  | PDsRename DsRename
  | POther

record Event =
  ev_Type :: EventType
  ev_Payload :: payload

definition validateProfileID :: "string \<Rightarrow> bool" where
  "validateProfileID profileID = (length profileID = 46)"

text \<open>
  The second loop of \<open>updateInitDataset\<close> ("copy ds versions"), over the indexes still
  to visit. Its bound in the source is \<open>d.Root.UsersLength()\<close>.
\<close>

fun copyDsVersions :: "DscacheFB \<Rightarrow> nat list \<Rightarrow> Builder \<Rightarrow> fault + Builder" where
  "copyDsVersions root [] b = Inr b"
| "copyDsVersions root (i # is) b =
     (case RefsAt root i of
        Inl f \<Rightarrow> Inl f
      | Inr r \<Rightarrow>
          copyDsVersions root is
            (AddDsVersionInfoWithIndexes b (convertEntryToVersionInfo r)
               (scast (TopIndex r)) (scast (CursorIndex r))))"

fun copyUsers :: "UserAssoc list \<Rightarrow> Builder \<Rightarrow> Builder" where
  "copyUsers [] b = b"
| "copyUsers (up # ups) b = copyUsers ups (AddUser b (ua_Username up) (ua_ProfileID up))"

text \<open>
  \<open>updateInitDataset\<close>. On a nil receiver \<open>IsEmpty\<close> holds and the next statement
  reads \<open>d.CreateNewEnabled\<close> through nil. The error of \<open>d.Assign\<close> is dropped.
\<close>

definition updateInitDataset ::
  "write_file \<Rightarrow> Dscache option \<Rightarrow> VersionInfo \<Rightarrow> effects \<Rightarrow>
     fault + (Dscache option \<times> error option \<times> effects)" where
  "updateInitDataset wr dp act fx =
     (case dp of
        None \<Rightarrow> Inl NilPointerDereference
      | Some d \<Rightarrow>
         (case Root d of
            None \<Rightarrow>
              if \<not> CreateNewEnabled d then Inr (dp, None, fx)
              else if \<not> validateProfileID (vi_ProfileID act)
              then Inr (dp, Some ErrInvalidProfileID, fx)
              else
                (let builder = AddUser NewBuilder (vi_Username act) (vi_ProfileID act);
                     builder = AddDsVersionInfo builder
                       (VersionInfo_zero\<lparr>vi_InitID := vi_InitID act,
                          vi_ProfileID := vi_ProfileID act, vi_Name := vi_Name act\<rparr>);
                     (dp', _, fx') = Assign wr dp (Build builder) fx
                 in Inr (dp', None, fx'))
          | Some root \<Rightarrow>
              (let builder = copyUsers (Users root) NewBuilder
               in case copyDsVersions root [0 ..< UsersLength root] builder of
                    Inl f \<Rightarrow> Inl f
                  | Inr builder \<Rightarrow>
                     (let builder = AddDsVersionInfo builder
                            (VersionInfo_zero\<lparr>vi_InitID := vi_InitID act,
                               vi_ProfileID := vi_ProfileID act, vi_Name := vi_Name act\<rparr>);
                          (dp', _, fx') = Assign wr dp (Build builder) fx
                      in Inr (dp', None, fx')))))"

text \<open>
  The replacement that \<open>updateChangeCursor\<close> passes: the fields added after the
  entry has been started from the existing one.
\<close>

definition changeCursorReplace :: "VersionInfo \<Rightarrow> RefEntryInfo \<Rightarrow> RefEntryInfo" where
  "changeCursorReplace act r =
     r\<lparr>TopIndex := ucast (vi_CommitCount act),
       CursorIndex := ucast (vi_CommitCount act),
       MetaTitle := vi_MetaTitle act,
       CommitTime := Unix (vi_CommitTime act),
       BodySize := vi_BodySize act,
       BodyRows := ucast (vi_BodyRows act),
       NumErrors := ucast (vi_NumErrors act),
       HeadRef := vi_Path act\<rparr>"

text \<open>In the next two functions the first two branches are \<open>d.IsEmpty()\<close>.\<close>

definition updateChangeCursor ::
  "write_file \<Rightarrow> Dscache option \<Rightarrow> VersionInfo \<Rightarrow> effects \<Rightarrow>
     Dscache option \<times> error option \<times> effects" where
  "updateChangeCursor wr dp act fx =
     (case dp of
        None \<Rightarrow> (dp, Some ErrNoDscache, fx)
      | Some d \<Rightarrow>
         (case Root d of
            None \<Rightarrow> (dp, Some ErrNoDscache, fx)
          | Some root0 \<Rightarrow>
             (let users = copyUserAssociationList root0;
                  refs = copyReferenceListWithReplacement root0
                           (\<lambda>r. InitID r = vi_InitID act)
                           (Some (changeCursorReplace act));
                  (root, serialized) = finishBuilding users refs;
                  d' = d\<lparr>Root := Some root, Buffer := serialized\<rparr>;
                  (e, fx') = save wr d' fx
              in (Some d', e, fx'))))"

definition updateDeleteDataset ::
  "write_file \<Rightarrow> Dscache option \<Rightarrow> string \<Rightarrow> effects \<Rightarrow>
     Dscache option \<times> error option \<times> effects" where
  "updateDeleteDataset wr dp initID fx =
     (case dp of
        None \<Rightarrow> (dp, Some ErrNoDscache, fx)
      | Some d \<Rightarrow>
         (case Root d of
            None \<Rightarrow> (dp, Some ErrNoDscache, fx)
          | Some root0 \<Rightarrow>
             (let users = copyUserAssociationList root0;
                  refs = copyReferenceListWithReplacement root0
                           (\<lambda>r. InitID r = initID) None;
                  (root, serialized) = finishBuilding users refs;
                  d' = d\<lparr>Root := Some root, Buffer := serialized\<rparr>;
                  (e, fx') = save wr d' fx
              in (Some d', e, fx'))))"

text \<open>\<open>if err != nil && err != ErrNoDscache { log.Error(err) }\<close>\<close>

definition logUpdateError :: "error option \<Rightarrow> effects \<Rightarrow> effects" where
  "logUpdateError err fx =
     (case err of
        None \<Rightarrow> fx
      | Some e \<Rightarrow> if e \<noteq> ErrNoDscache then fx\<lparr>log_lines := log_lines fx @ [LogError e]\<rparr>
                  else fx)"

definition logBadPayload :: "effects \<Rightarrow> effects" where
  "logBadPayload fx = fx\<lparr>log_lines := log_lines fx @ [LogBadPayload]\<rparr>"

text \<open>
  \<open>handler\<close>: the result is the cache as the call leaves it, the returned error and
  the effects. The cases for rename and for every other type fall through to
  \<open>return nil\<close>.
\<close>

definition handler ::
  "write_file \<Rightarrow> Dscache option \<Rightarrow> Event \<Rightarrow> effects \<Rightarrow>
     fault + (Dscache option \<times> error option \<times> effects)" where
  "handler wr dp e fx =
     (case ev_Type e of
        ETDatasetNameInit \<Rightarrow>
          (case ev_Payload e of
             PVersionInfo act \<Rightarrow>
               (case updateInitDataset wr dp act fx of
                  Inl f \<Rightarrow> Inl f
                | Inr (dp', err, fx') \<Rightarrow> Inr (dp', None, logUpdateError err fx'))
           | _ \<Rightarrow> Inr (dp, None, logBadPayload fx))
      | ETLogbookWriteCommit \<Rightarrow>
          (case ev_Payload e of
             PVersionInfo act \<Rightarrow>
               (case updateChangeCursor wr dp act fx of
                  (dp', err, fx') \<Rightarrow> Inr (dp', None, logUpdateError err fx'))
           | _ \<Rightarrow> Inr (dp, None, logBadPayload fx))
      | ETDatasetDeleteAll \<Rightarrow>
          (case ev_Payload e of
             PString initID \<Rightarrow>
               (case updateDeleteDataset wr dp initID fx of
                  (dp', err, fx') \<Rightarrow> Inr (dp', None, logUpdateError err fx'))
           | _ \<Rightarrow> Inr (dp, None, logBadPayload fx))
      | ETDatasetRename \<Rightarrow> Inr (dp, None, fx)
      | _ \<Rightarrow> Inr (dp, None, fx))"

section \<open>repo: the in-memory repository\<close>

text \<open>
  \<open>MemRepo\<close>, with the two fields a resolver could use. The logbook is a collaborator
  outside the source files: its type is a parameter and its \<open>ResolveRef\<close> is passed
  in as \<open>lbResolve\<close>.
\<close>

record 'lb MemRepo =
  mr_logbook :: "'lb option"
  mr_dscache :: "Dscache option"

definition MemRepo_ResolveRef ::
  "('lb \<Rightarrow> Ref option \<Rightarrow> fault + (Ref option \<times> string \<times> error option)) \<Rightarrow>
     'lb MemRepo option \<Rightarrow> Ref option \<Rightarrow> fault + (Ref option \<times> string \<times> error option)" where
  "MemRepo_ResolveRef lbResolve rp refp =
     (case rp of
        None \<Rightarrow> Inr (refp, [], Some ErrRefNotFound)
      | Some r \<Rightarrow>
         (case mr_logbook r of
            None \<Rightarrow> Inr (refp, [], Some ErrNoLogbook)
          | Some book \<Rightarrow> lbResolve book refp))"

section \<open>logsync: log transfer over HTTP\<close>

datatype PubKey = PubKey string

record Author =
  AuthorID :: string
  AuthorPubKey :: PubKey

text \<open>\<open>http.Header\<close> with \<open>Get\<close> (the empty string for a missing key) and \<open>Set\<close>.\<close>

type_synonym Header = "string \<rightharpoonup> string"

definition Get :: "Header \<Rightarrow> string \<Rightarrow> string" where
  "Get h k = (case h k of None \<Rightarrow> [] | Some v \<Rightarrow> v)"

definition Set :: "Header \<Rightarrow> string \<Rightarrow> string \<Rightarrow> Header" where
  "Set h k v = h(k \<mapsto> v)"

text \<open>
  The libraries the file calls are parameters: key marshalling of libp2p, base64 of
  the standard library, \<open>http.NewRequest\<close> (which can refuse a method or URL),
  the transport \<open>http.DefaultClient.Do\<close>, and the rendering of a ref in a URL.
\<close>

record Request =
  rq_Method :: string
  rq_URL :: string
  rq_Header :: Header
  rq_Body :: string

text \<open>
  A response as the client sees it; the body is what \<open>ioutil.ReadAll\<close> makes of
  it: the bytes, or a read error.
\<close>

record Response =
  StatusCode :: nat
  res_Header :: Header
  res_Body :: "error + string"

record net_env =
  NewRequest :: "string \<Rightarrow> string \<Rightarrow> error option"
  KeyBytes :: "PubKey \<Rightarrow> error + string"
  EncodeToString :: "string \<Rightarrow> string"
  DecodeString :: "string \<Rightarrow> error + string"
  UnmarshalPublicKey :: "string \<Rightarrow> error + PubKey"
  Do :: "Request \<Rightarrow> Response option \<times> error option"
  RefString :: "Ref \<Rightarrow> string"

definition StatusOK :: nat where "StatusOK = 200"
definition StatusBadRequest :: nat where "StatusBadRequest = 400"
definition StatusNotFound :: nat where "StatusNotFound = 404"

text \<open>\<open>addAuthorHTTPHeaders\<close> sets \<open>AuthorID\<close> before the key bytes can fail.\<close>

definition addAuthorHTTPHeaders :: "net_env \<Rightarrow> Header \<Rightarrow> Author \<Rightarrow> Header \<times> error option" where
  "addAuthorHTTPHeaders env h author =
     (let h1 = Set h ''AuthorID'' (AuthorID author)
      in case KeyBytes env (AuthorPubKey author) of
           Inl err \<Rightarrow> (h1, Some err)
         | Inr pubByteStr \<Rightarrow> (Set h1 ''PubKey'' (EncodeToString env pubByteStr), None))"

definition senderFromHTTPHeaders :: "net_env \<Rightarrow> Header \<Rightarrow> error + Author" where
  "senderFromHTTPHeaders env h =
     (case DecodeString env (Get h ''PubKey'') of
        Inl err \<Rightarrow> Inl err
      | Inr data \<Rightarrow>
         (case UnmarshalPublicKey env data of
            Inl err \<Rightarrow> Inl (ErrDecodingPublicKey err)
          | Inr pub \<Rightarrow> Inr \<lparr>AuthorID = Get h ''AuthorID'', AuthorPubKey = pub\<rparr>))"

subsection \<open>The client\<close>

text \<open>
  \<open>HTTPClient.put\<close>. After \<open>Do\<close> the source reads \<open>res.StatusCode\<close> at once; the
  \<open>err\<close> of the inner \<open>if\<close> is a new variable, so the final \<open>return err\<close> returns
  the error of \<open>Do\<close>.
\<close>

definition put :: "net_env \<Rightarrow> string \<Rightarrow> Author \<Rightarrow> string \<Rightarrow> fault + error option" where
  "put env url author r =
     (case NewRequest env ''PUT'' url of
        Some err \<Rightarrow> Inr (Some err)
      | None \<Rightarrow>
         (case addAuthorHTTPHeaders env Map.empty author of
            (h, Some err) \<Rightarrow> Inr (Some err)
          | (h, None) \<Rightarrow>
             (case Do env \<lparr>rq_Method = ''PUT'', rq_URL = url, rq_Header = h, rq_Body = r\<rparr> of
                (None, err) \<Rightarrow> Inl NilPointerDereference
              | (Some res, err) \<Rightarrow>
                  if StatusCode res \<noteq> StatusOK
                  then (case res_Body res of
                          Inr errmsg \<Rightarrow> Inr (Some (ErrMessage errmsg))
                        | Inl _ \<Rightarrow> Inr err)
                  else Inr None)))"

definition del :: "net_env \<Rightarrow> string \<Rightarrow> Author \<Rightarrow> Ref \<Rightarrow> fault + error option" where
  "del env url author ref =
     (let target = url @ ''?ref='' @ RefString env ref
      in case NewRequest env ''DELETE'' target of
        Some err \<Rightarrow> Inr (Some err)
      | None \<Rightarrow>
         (case addAuthorHTTPHeaders env Map.empty author of
            (h, Some err) \<Rightarrow> Inr (Some err)
          | (h, None) \<Rightarrow>
             (case Do env \<lparr>rq_Method = ''DELETE'', rq_URL = target, rq_Header = h,
                           rq_Body = []\<rparr> of
                (None, err) \<Rightarrow> Inl NilPointerDereference
              | (Some res, err) \<Rightarrow>
                  if StatusCode res \<noteq> StatusOK
                  then (case res_Body res of
                          Inr errmsg \<Rightarrow> Inr (Some (ErrMessage errmsg))
                        | Inl _ \<Rightarrow> Inr err)
                  else Inr err)))"

subsection \<open>The server\<close>

text \<open>
  The request as the handler reads it: method, headers, the form value \<open>ref\<close> and
  the body. The \<open>Logsync\<close> object and the ref parser of package repo are
  collaborators outside the file: their results are functions of a record.
\<close>

record IncomingRequest =
  in_Method :: string
  in_Header :: Header
  in_FormRef :: string
  in_Body :: string

record 'dr Logsync =
  ls_put :: "Author \<Rightarrow> string \<Rightarrow> error option"
  ls_get :: "Author \<Rightarrow> Ref \<Rightarrow> error + (Author \<times> string)"
  ls_del :: "Author \<Rightarrow> Ref \<Rightarrow> error option"
  ls_Author :: Author
  ParseDatasetRef :: "string \<Rightarrow> error + 'dr"
  ConvertToDsref :: "'dr \<Rightarrow> Ref"

text \<open>
  \<open>http.ResponseWriter\<close>: the status stays unset until \<open>WriteHeader\<close> or the first
  \<open>Write\<close>; a response whose status was never set goes out as 200.
\<close>

datatype chunk = ErrorText error | Bytes string

record ResponseWriter =
  rw_status :: "nat option"
  rw_Header :: Header
  rw_body :: "chunk list"

definition newResponseWriter :: ResponseWriter where
  "newResponseWriter = \<lparr>rw_status = None, rw_Header = Map.empty, rw_body = []\<rparr>"

definition WriteHeader :: "ResponseWriter \<Rightarrow> nat \<Rightarrow> ResponseWriter" where
  "WriteHeader w code = (case rw_status w of None \<Rightarrow> w\<lparr>rw_status := Some code\<rparr> | Some _ \<Rightarrow> w)"

definition Write :: "ResponseWriter \<Rightarrow> chunk \<Rightarrow> ResponseWriter" where
  "Write w c = (WriteHeader w StatusOK)\<lparr>rw_body := rw_body w @ [c]\<rparr>"

definition status :: "ResponseWriter \<Rightarrow> nat" where
  "status w = (case rw_status w of None \<Rightarrow> StatusOK | Some code \<Rightarrow> code)"

text \<open>The four identical error exits: \<open>w.WriteHeader(400); w.Write(err.Error())\<close>.\<close>

definition badRequest :: "ResponseWriter \<Rightarrow> error \<Rightarrow> ResponseWriter" where
  "badRequest w err = Write (WriteHeader w StatusBadRequest) (ErrorText err)"

definition HTTPHandler ::
  "net_env \<Rightarrow> 'dr Logsync \<Rightarrow> ResponseWriter \<Rightarrow> IncomingRequest \<Rightarrow> ResponseWriter" where
  "HTTPHandler env lsync w r =
     (case senderFromHTTPHeaders env (in_Header r) of
        Inl err \<Rightarrow> badRequest w err
      | Inr sender \<Rightarrow>
          if in_Method r = ''PUT'' then
            (case ls_put lsync sender (in_Body r) of
               Some err \<Rightarrow> badRequest w err
             | None \<Rightarrow> w\<lparr>rw_Header := fst (addAuthorHTTPHeaders env (rw_Header w) (ls_Author lsync))\<rparr>)
          else if in_Method r = ''GET'' then
            (case ParseDatasetRef lsync (in_FormRef r) of
               Inl err \<Rightarrow> badRequest w err
             | Inr ref \<Rightarrow>
                (case ls_get lsync sender (ConvertToDsref lsync ref) of
                   Inl err \<Rightarrow> badRequest w err
                 | Inr (receiver, rd) \<Rightarrow>
                     Write (w\<lparr>rw_Header := fst (addAuthorHTTPHeaders env (rw_Header w) receiver)\<rparr>)
                       (Bytes rd)))
          else if in_Method r = ''DELETE'' then
            (case ParseDatasetRef lsync (in_FormRef r) of
               Inl err \<Rightarrow> badRequest w err
             | Inr ref \<Rightarrow>
                (case ls_del lsync sender (ConvertToDsref lsync ref) of
                   Some err \<Rightarrow> badRequest w err
                 | None \<Rightarrow>
                     w\<lparr>rw_Header := fst (addAuthorHTTPHeaders env (rw_Header w) (ls_Author lsync))\<rparr>))
          else w)"

section \<open>automation: listing a workflow store\<close>

text \<open>
  \<open>fmt\<close>'s \<open>%d\<close> of an integer: decimal digits, a minus sign for a negative one.
\<close>

fun show_nat :: "nat \<Rightarrow> string" where
  "show_nat n =
     (if n < 10 then [''0123456789'' ! n]
      else show_nat (n div 10) @ [''0123456789'' ! (n mod 10)])"

definition show_int :: "int \<Rightarrow> string" where
  "show_int i = (if i < 0 then CHR ''-'' # show_nat (nat (- i)) else show_nat (nat i))"

record Workflow =
  wf_ID :: string
  wf_InitID :: string
  wf_OwnerID :: string
  wf_Active :: bool

record ListParams =
  Offset :: int
  Limit :: int

text \<open>
  Modelled from the spec: no implementation of \<open>workflow.Store\<close> is among the source
  files, only the assertions every implementation has to pass. A store is taken in
  the order in which it lists its workflows. Per section 8: a limit below \<open>-1\<close> and
  a negative offset are errors with the quoted messages; limit \<open>-1\<close> lists all;
  otherwise at most \<open>limit\<close> items from \<open>offset\<close> on, which is the empty list for
  limit 0 and for an offset past the end. The assertions list with an owner that owns
  nothing and still expect every workflow, so the owner does not filter.
  \<open>ListDeployed\<close> lists the active workflows the same way.
\<close>

definition listPage :: "'a list \<Rightarrow> ListParams \<Rightarrow> error + 'a list" where
  "listPage items lp =
     (if Limit lp < 0 \<and> Limit lp \<noteq> - 1
      then Inl (ErrMessage (''limit of '' @ show_int (Limit lp) @ '' is out of bounds''))
      else if Offset lp < 0
      then Inl (ErrMessage (''offset of '' @ show_int (Offset lp) @ '' is out of bounds''))
      else if Limit lp = - 1 then Inr (drop (nat (Offset lp)) items)
      else Inr (take (nat (Limit lp)) (drop (nat (Offset lp)) items)))"

definition List_Workflows :: "Workflow list \<Rightarrow> string \<Rightarrow> ListParams \<Rightarrow> error + Workflow list" where
  "List_Workflows store pid lp = listPage store lp"

definition ListDeployed :: "Workflow list \<Rightarrow> string \<Rightarrow> ListParams \<Rightarrow> error + Workflow list" where
  "ListDeployed store pid lp = listPage (filter wf_Active store) lp"

definition WithOffsetLimit :: "int \<Rightarrow> int \<Rightarrow> ListParams" where
  "WithOffsetLimit offset limit = \<lparr>Offset = offset, Limit = limit\<rparr>"

section \<open>Concrete values for the evaluations below\<close>

definition ex_profileID :: string where
  "ex_profileID = ''QmZePf5LeXow3RW5U1AgEiNbW46YnRGhZ7HPvm1UmPFPwt''"

definition ex_entry :: "string \<Rightarrow> string \<Rightarrow> RefEntryInfo" where
  "ex_entry initID name =
     \<lparr>InitID = initID, ProfileID = ex_profileID, TopIndex = 0, CursorIndex = 0,
      PrettyName = name, Published = False, Foreign = False, MetaTitle = [],
      ThemeList = [], BodySize = 0, BodyRows = 0, BodyFormat = [], NumErrors = 0,
      CommitTime = 0, CommitCount = 0, HeadRef = [], FsiPath = []\<rparr>"

definition ex_root :: DscacheFB where
  "ex_root =
     \<lparr>Users = [\<lparr>ua_Username = ''alice'', ua_ProfileID = ex_profileID\<rparr>],
      Refs = [ex_entry ''I1'' ''world_bank'', ex_entry ''I2'' ''census'']\<rparr>"

definition ex_cache :: Dscache where
  "ex_cache =
     \<lparr>Filename = ''dscache.qfb'', Root = Some ex_root, Buffer = Some ex_root,
      CreateNewEnabled = False, DefaultUsername = ''alice''\<rparr>"

definition ex_empty :: Dscache where
  "ex_empty =
     \<lparr>Filename = ''dscache.qfb'', Root = None, Buffer = None,
      CreateNewEnabled = False, DefaultUsername = ''alice''\<rparr>"

definition ex_info :: "string \<Rightarrow> string \<Rightarrow> string \<Rightarrow> VersionInfo" where
  "ex_info initID profileID name =
     VersionInfo_zero\<lparr>vi_InitID := initID, vi_Username := ''alice'',
       vi_ProfileID := profileID, vi_Name := name\<rparr>"

definition write_ok :: write_file where
  "write_ok name data = None"

definition write_fails :: write_file where
  "write_fails name data = Some (ErrExternal ''no space left on device'')"

text \<open>The listed InitIDs and the entries of a cache, for stating results.\<close>

definition refsOf :: "Dscache option \<Rightarrow> RefEntryInfo list" where
  "refsOf dp =
     (case dp of
        None \<Rightarrow> []
      | Some d \<Rightarrow> (case Root d of None \<Rightarrow> [] | Some root \<Rightarrow> Refs root))"

text \<open>
  A commit on the first dataset of the example cache, a delete of it, and the rename
  of section 4.2.
\<close>

definition ex_commit :: VersionInfo where
  "ex_commit =
     (ex_info ''I1'' ex_profileID ''world_bank'')
       \<lparr>vi_Path := ''/hash/p1'', vi_MetaTitle := ''World Bank'', vi_BodySize := 17,
        vi_BodyRows := 2, vi_CommitCount := 1\<rparr>"

definition ex_rename :: Event where
  "ex_rename =
     \<lparr>ev_Type = ETDatasetRename,
      ev_Payload = PDsRename \<lparr>rn_InitID = ''I1'', rn_OldName = ''world_bank'',
                               rn_NewName = ''wbp''\<rparr>\<rparr>"

text \<open>
  A logsync server that knows the log of \<open>world_bank\<close> only, behind libraries that
  accept every non-empty key, and a transport that cannot reach any host.
\<close>

definition ex_author :: Author where
  "ex_author = \<lparr>AuthorID = ''QmServer'', AuthorPubKey = PubKey ''server-key''\<rparr>"

definition ex_env :: net_env where
  "ex_env =
     \<lparr>NewRequest = (\<lambda>m u. None),
      KeyBytes = (\<lambda>k. case k of PubKey s \<Rightarrow> Inr s),
      EncodeToString = (\<lambda>s. s),
      DecodeString = (\<lambda>s. Inr s),
      UnmarshalPublicKey =
        (\<lambda>s. if s = [] then Inl (ErrExternal ''unexpected EOF'') else Inr (PubKey s)),
      Do = (\<lambda>rq. (None, Some (ErrExternal ''dial tcp: connection refused''))),
      RefString = (\<lambda>ref. ref_Username ref @ ''/'' @ ref_Name ref)\<rparr>"

definition ex_lsync :: "Ref Logsync" where
  "ex_lsync =
     \<lparr>ls_put = (\<lambda>a body. None),
      ls_get = (\<lambda>a ref. if ref_Name ref = ''world_bank''
                         then Inr (ex_author, ''log-bytes'') else Inl ErrRefNotFound),
      ls_del = (\<lambda>a ref. if ref_Name ref = ''world_bank'' then None
                         else Some ErrRefNotFound),
      ls_Author = ex_author,
      ParseDatasetRef =
        (\<lambda>s. if s = [] then Inl (ErrMessage ''repo: empty dataset reference'')
              else Inr \<lparr>ref_Username = ''alice'', ref_ProfileID = [], ref_Name = s,
                        ref_InitID = [], ref_Path = []\<rparr>),
      ConvertToDsref = (\<lambda>r. r)\<rparr>"

definition ex_request :: "string \<Rightarrow> string \<Rightarrow> IncomingRequest" where
  "ex_request method ref =
     \<lparr>in_Method = method,
      in_Header = Map.empty(''AuthorID'' \<mapsto> ''QmClient'', ''PubKey'' \<mapsto> ''client-key''),
      in_FormRef = ref, in_Body = ''log-bytes''\<rparr>"

definition ex_workflows :: "Workflow list" where
  "ex_workflows =
     [\<lparr>wf_ID = ''w2'', wf_InitID = ''dataset_2'', wf_OwnerID = ''profile_id'', wf_Active = True\<rparr>,
      \<lparr>wf_ID = ''w1'', wf_InitID = ''dataset_1'', wf_OwnerID = ''profile_id'', wf_Active = False\<rparr>,
      \<lparr>wf_ID = ''w0'', wf_InitID = ''dataset_0'', wf_OwnerID = ''profile_id'', wf_Active = True\<rparr>]"

text \<open>
  What a handled event leaves when the cache \<open>d\<close> was saved by one call of
  \<open>ioutil.WriteFile\<close> on the cache's own file name with the buffer of the resulting
  cache (no call at all when no file name is set), and the handler returned nil.
\<close>

definition savedByOneWrite ::
  "Dscache \<Rightarrow> effects \<Rightarrow> fault + (Dscache option \<times> error option \<times> effects) \<Rightarrow> bool" where
  "savedByOneWrite d fx res =
     (case res of
        Inl f \<Rightarrow> False
      | Inr (dp', err, fx') \<Rightarrow>
          err = None \<and>
          (case dp' of
             None \<Rightarrow> False
           | Some d' \<Rightarrow>
               Filename d' = Filename d \<and> Buffer d' = Root d' \<and> Root d' \<noteq> None \<and>
               fs_ops fx' =
                 fs_ops fx @
                   (if Filename d = [] then [] else [WriteFile (Filename d) (Buffer d')])))"

section \<open>Lemmas about the copying loops\<close>

lemma copyRefs_replace:
  "copyRefs findMatch (Some f) rs = map (\<lambda>r. if findMatch r then f r else r) rs"
  by (induction rs) simp_all

lemma copyRefs_omit:
  "copyRefs findMatch None rs = filter (\<lambda>r. \<not> findMatch r) rs"
  by (induction rs) simp_all

lemma completeRefFrom_absent:
  "\<forall>r \<in> set rs. InitID r \<noteq> ref_InitID ref \<Longrightarrow>
     completeRefFrom us rs ref = (ref, Some ErrRefNotFound)"
  by (induction rs) simp_all

lemma copyDsVersions_in_range:
  "\<forall>i \<in> set ixs. i < RefsLength root \<Longrightarrow> \<exists>b'. copyDsVersions root ixs b = Inr b'"
  by (induction ixs arbitrary: b) (simp_all add: RefsAt_def)

lemma WriteCommit_saved:
  "Root d = Some root \<Longrightarrow>
   savedByOneWrite d fx
     (handler wr (Some d) \<lparr>ev_Type = ETLogbookWriteCommit, ev_Payload = PVersionInfo act\<rparr> fx)"
  by (simp add: savedByOneWrite_def handler_def updateChangeCursor_def finishBuilding_def
      save_def logUpdateError_def Let_def split: option.splits)

lemma DeleteAll_saved:
  "Root d = Some root \<Longrightarrow>
   savedByOneWrite d fx
     (handler wr (Some d) \<lparr>ev_Type = ETDatasetDeleteAll, ev_Payload = PString initID\<rparr> fx)"
  by (simp add: savedByOneWrite_def handler_def updateDeleteDataset_def finishBuilding_def
      save_def logUpdateError_def Let_def split: option.splits)

lemma NameInit_saved:
  assumes "Root d = Some root" and "UsersLength root \<le> RefsLength root"
  shows "savedByOneWrite d fx
     (handler wr (Some d) \<lparr>ev_Type = ETDatasetNameInit, ev_Payload = PVersionInfo act\<rparr> fx)"
proof -
  have "\<forall>i \<in> set [0 ..< UsersLength root]. i < RefsLength root"
    using assms(2) by simp
  then obtain b' where
    "copyDsVersions root [0 ..< UsersLength root] (copyUsers (Users root) NewBuilder) = Inr b'"
    using copyDsVersions_in_range by blast
  then show ?thesis
    using assms(1)
    by (simp add: savedByOneWrite_def handler_def updateInitDataset_def Assign_def Build_def
        save_def logUpdateError_def Let_def split: option.splits)
qed

lemma NameInit_created_saved:
  "Root d = None \<Longrightarrow> CreateNewEnabled d \<Longrightarrow> length (vi_ProfileID act) = 46 \<Longrightarrow>
   savedByOneWrite d fx
     (handler wr (Some d) \<lparr>ev_Type = ETDatasetNameInit, ev_Payload = PVersionInfo act\<rparr> fx)"
  by (simp add: savedByOneWrite_def handler_def updateInitDataset_def validateProfileID_def
      Assign_def Build_def save_def logUpdateError_def Let_def split: option.splits)

section \<open>The claims\<close>

subsection \<open>C1: name initialization on a cache that has data\<close>

text \<open>
  Claim C1. For every \<open>ETDatasetNameInit\<close> event handled by a non-empty dscache, the
  handler appends a new \<open>Refs\<close> entry with zeroed indexes and preserves every entry
  already present: afterwards the cache lists all previous InitIDs plus the new one.

  The loop that copies the existing entries runs to \<open>UsersLength\<close>, not to
  \<open>RefsLength\<close>. On the cache of one user with the two datasets \<open>I1\<close> and \<open>I2\<close>,
  initializing \<open>I3\<close> (with a well-formed profile ID) is handled without an error and
  leaves a cache that lists \<open>I1\<close> and \<open>I3\<close>: the new entry is appended with zeroed
  indexes, and \<open>I2\<close> is gone.
\<close>

theorem handler_NameInit_loses_entries_beyond_users:
  "(case handler write_ok (Some ex_cache)
           \<lparr>ev_Type = ETDatasetNameInit,
            ev_Payload = PVersionInfo (ex_info ''I3'' ex_profileID ''wbp'')\<rparr> no_effects of
      Inl f \<Rightarrow> False
    | Inr (dp', err, fx') \<Rightarrow>
        err = None \<and> log_lines fx' = [] \<and>
        map InitID (refsOf (Some ex_cache)) = [''I1'', ''I2''] \<and>
        map InitID (refsOf dp') = [''I1'', ''I3''] \<and>
        map TopIndex (refsOf dp') = [0, 0] \<and> map CursorIndex (refsOf dp') = [0, 0])"
  by (simp add: handler_def updateInitDataset_def ex_cache_def ex_root_def ex_entry_def
      ex_info_def ex_profileID_def VersionInfo_zero_def UsersLength_def RefsAt_def
      RefsLength_def NewBuilder_def AddUser_def AddDsVersionInfo_def
      AddDsVersionInfoWithIndexes_def entryOfVersionInfo_def convertEntryToVersionInfo_def
      Build_def Assign_def save_def no_effects_def logUpdateError_def refsOf_def
      write_ok_def Let_def)

subsection \<open>C2: rename\<close>

text \<open>
  Claim C2. For every \<open>ETDatasetRename\<close> event whose InitID matches an entry of a
  non-empty dscache, the handler rebuilds the cache replacing that entry's
  \<open>PrettyName\<close> with the new name and leaves its other fields unchanged.

  The rename case of the handler is empty (its body is a TODO comment). Whatever the
  cache, the payload and the file system, the event leaves the cache as it was, writes
  nothing and logs nothing; on the example cache, renaming \<open>I1\<close> from \<open>world_bank\<close>
  to \<open>wbp\<close> leaves the pretty names \<open>world_bank\<close> and \<open>census\<close>.
\<close>

theorem handler_Rename_changes_nothing:
  "handler wr dp \<lparr>ev_Type = ETDatasetRename, ev_Payload = p\<rparr> fx = Inr (dp, None, fx) \<and>
   (case handler write_ok (Some ex_cache) ex_rename no_effects of
      Inl f \<Rightarrow> False
    | Inr (dp', err, fx') \<Rightarrow>
        map PrettyName (refsOf dp') = [''world_bank'', ''census''] \<and> fs_ops fx' = [])"
  by (simp add: handler_def ex_rename_def ex_cache_def ex_root_def ex_entry_def refsOf_def
      no_effects_def)

subsection \<open>C3: status codes of the logsync handler\<close>

text \<open>
  Claim C3. For every logsync HTTP request: a malformed author header, a missing or
  unparsable ref, or a verification failure yields 400 Bad Request; a GET or DELETE
  naming a ref unknown to the server yields 404 Not Found; success yields 200 OK.

  The handler has one error exit, which writes 400, and no other call of
  \<open>WriteHeader\<close>. A GET for a ref whose log the server does not have is answered
  with 400, not with 404.
\<close>

theorem HTTPHandler_unknown_ref_counterexample:
  "ls_get ex_lsync \<lparr>AuthorID = ''QmClient'', AuthorPubKey = PubKey ''client-key''\<rparr>
      \<lparr>ref_Username = ''alice'', ref_ProfileID = [], ref_Name = ''census'',
       ref_InitID = [], ref_Path = []\<rparr> = Inl ErrRefNotFound \<and>
   status (HTTPHandler ex_env ex_lsync newResponseWriter (ex_request ''GET'' ''census''))
     = StatusBadRequest \<and>
   status (HTTPHandler ex_env ex_lsync newResponseWriter (ex_request ''GET'' ''census''))
     \<noteq> StatusNotFound"
  by (simp add: HTTPHandler_def senderFromHTTPHeaders_def ex_env_def ex_lsync_def
      ex_request_def Get_def badRequest_def Write_def WriteHeader_def status_def
      newResponseWriter_def StatusBadRequest_def StatusNotFound_def StatusOK_def)

text \<open>
  Claim C3, amended. On a response whose status has not been set: when the author
  headers cannot be decoded the status is 400; otherwise a PUT is answered with 200
  when the log is accepted and with 400 when it is refused, and a GET or DELETE is
  answered with 400 when the ref cannot be parsed or the operation fails (an unknown
  ref included) and with 200 when it succeeds. The status is never 404.
\<close>

theorem HTTPHandler_status:
  "(senderFromHTTPHeaders env (in_Header r) = Inl e \<longrightarrow>
      status (HTTPHandler env lsync newResponseWriter r) = StatusBadRequest) \<and>
   (senderFromHTTPHeaders env (in_Header r) = Inr sender \<and> in_Method r = ''PUT'' \<longrightarrow>
      status (HTTPHandler env lsync newResponseWriter r) =
        (case ls_put lsync sender (in_Body r) of
           Some err \<Rightarrow> StatusBadRequest | None \<Rightarrow> StatusOK)) \<and>
   (senderFromHTTPHeaders env (in_Header r) = Inr sender \<and> in_Method r = ''GET'' \<longrightarrow>
      status (HTTPHandler env lsync newResponseWriter r) =
        (case ParseDatasetRef lsync (in_FormRef r) of
           Inl err \<Rightarrow> StatusBadRequest
         | Inr ref \<Rightarrow>
            (case ls_get lsync sender (ConvertToDsref lsync ref) of
               Inl err \<Rightarrow> StatusBadRequest | Inr res \<Rightarrow> StatusOK))) \<and>
   (senderFromHTTPHeaders env (in_Header r) = Inr sender \<and> in_Method r = ''DELETE'' \<longrightarrow>
      status (HTTPHandler env lsync newResponseWriter r) =
        (case ParseDatasetRef lsync (in_FormRef r) of
           Inl err \<Rightarrow> StatusBadRequest
         | Inr ref \<Rightarrow>
            (case ls_del lsync sender (ConvertToDsref lsync ref) of
               Some err \<Rightarrow> StatusBadRequest | None \<Rightarrow> StatusOK))) \<and>
   status (HTTPHandler env lsync newResponseWriter r) \<noteq> StatusNotFound"
  by (auto simp add: HTTPHandler_def badRequest_def Write_def WriteHeader_def status_def
      newResponseWriter_def StatusBadRequest_def StatusNotFound_def StatusOK_def
      split: sum.splits option.splits prod.splits)

theorem HTTPHandler_status_witness:
  "status (HTTPHandler ex_env ex_lsync newResponseWriter (ex_request ''GET'' ''world_bank''))
     = StatusOK \<and>
   status (HTTPHandler ex_env ex_lsync newResponseWriter (ex_request ''GET'' ''census''))
     = StatusBadRequest \<and>
   status (HTTPHandler ex_env ex_lsync newResponseWriter (ex_request ''DELETE'' []))
     = StatusBadRequest \<and>
   status (HTTPHandler ex_env ex_lsync newResponseWriter (ex_request ''PUT'' []))
     = StatusOK \<and>
   status (HTTPHandler ex_env ex_lsync newResponseWriter
             ((ex_request ''PUT'' [])\<lparr>in_Header := Map.empty\<rparr>))
     = StatusBadRequest"
  using
    HTTPHandler_status [of ex_env "ex_request ''GET'' ''world_bank''" ErrRefNotFound
      ex_lsync "\<lparr>AuthorID = ''QmClient'', AuthorPubKey = PubKey ''client-key''\<rparr>"]
    HTTPHandler_status [of ex_env "ex_request ''GET'' ''census''" ErrRefNotFound
      ex_lsync "\<lparr>AuthorID = ''QmClient'', AuthorPubKey = PubKey ''client-key''\<rparr>"]
    HTTPHandler_status [of ex_env "ex_request ''DELETE'' []" ErrRefNotFound
      ex_lsync "\<lparr>AuthorID = ''QmClient'', AuthorPubKey = PubKey ''client-key''\<rparr>"]
    HTTPHandler_status [of ex_env "ex_request ''PUT'' []" ErrRefNotFound
      ex_lsync "\<lparr>AuthorID = ''QmClient'', AuthorPubKey = PubKey ''client-key''\<rparr>"]
    HTTPHandler_status [of ex_env "(ex_request ''PUT'' [])\<lparr>in_Header := Map.empty\<rparr>"
      "ErrDecodingPublicKey (ErrExternal ''unexpected EOF'')" ex_lsync ex_author]
  by (simp add: senderFromHTTPHeaders_def ex_env_def ex_lsync_def ex_request_def Get_def)

subsection \<open>C4: resolving against a cache that is nil or empty\<close>

text \<open>
  Claim C4. For every reference argument (a nil pointer included), \<open>ResolveRef\<close> on a
  nil dscache or on a dscache without data returns \<open>ErrRefNotFound\<close> and does not
  panic, leaving the reference as it was; \<open>ResolveRef\<close> on a nil \<open>MemRepo\<close>
  receiver returns \<open>ErrRefNotFound\<close> as well.
\<close>

theorem ResolveRef_nil_callable:
  "(dp = None \<or> (\<exists>d. dp = Some d \<and> Root d = None) \<longrightarrow>
      ResolveRef dp refp = Inr (refp, [], Some ErrRefNotFound)) \<and>
   MemRepo_ResolveRef lbResolve None refp = Inr (refp, [], Some ErrRefNotFound)"
  by (auto simp add: ResolveRef_def IsEmpty_def MemRepo_ResolveRef_def)

theorem ResolveRef_nil_callable_witness:
  "ResolveRef None None = Inr (None, [], Some ErrRefNotFound) \<and>
   ResolveRef (Some ex_empty) (Some \<lparr>ref_Username = ''alice'', ref_ProfileID = [],
       ref_Name = ''world_bank'', ref_InitID = [], ref_Path = []\<rparr>) =
     Inr (Some \<lparr>ref_Username = ''alice'', ref_ProfileID = [],
       ref_Name = ''world_bank'', ref_InitID = [], ref_Path = []\<rparr>, [], Some ErrRefNotFound) \<and>
   MemRepo_ResolveRef (\<lambda>(book :: unit) refp. Inl NilPointerDereference) None None =
     Inr (None, [], Some ErrRefNotFound)"
  using
    ResolveRef_nil_callable [of None None "\<lambda>(book :: unit) refp. Inl NilPointerDereference"]
    ResolveRef_nil_callable [of "Some ex_empty"
      "Some \<lparr>ref_Username = ''alice'', ref_ProfileID = [],
         ref_Name = ''world_bank'', ref_InitID = [], ref_Path = []\<rparr>"
      "\<lambda>(book :: unit) refp. Inl NilPointerDereference"]
  by (simp add: ex_empty_def)

subsection \<open>C5: a commit moves the cursor\<close>

text \<open>
  Claim C5. For every \<open>ETLogbookWriteCommit\<close> event handled by a dscache that has
  data, the handler returns nil and the rebuilt cache has the same entries in the same
  order, except that each entry whose InitID is the event's has \<open>TopIndex\<close> and
  \<open>CursorIndex\<close> set to the event's commit count (converted to \<open>int32\<close>) and
  \<open>MetaTitle\<close>, \<open>CommitTime\<close>, \<open>BodySize\<close>, \<open>BodyRows\<close>, \<open>NumErrors\<close> and
  \<open>HeadRef\<close> taken from the payload, its other fields unchanged. In particular,
  after the first commit (commit count 1) with path \<open>p\<close> that entry has \<open>TopIndex\<close>
  1 and \<open>HeadRef\<close> \<open>p\<close>.
\<close>

theorem handler_WriteCommit_replaces_entry:
  "Root d = Some root \<Longrightarrow>
   (case handler wr (Some d)
           \<lparr>ev_Type = ETLogbookWriteCommit, ev_Payload = PVersionInfo act\<rparr> fx of
      Inl f \<Rightarrow> False
    | Inr (dp', err, fx') \<Rightarrow>
        err = None \<and>
        refsOf dp' =
          map (\<lambda>r. if InitID r = vi_InitID act
                    then r\<lparr>TopIndex := ucast (vi_CommitCount act),
                           CursorIndex := ucast (vi_CommitCount act),
                           MetaTitle := vi_MetaTitle act,
                           CommitTime := t_sec (vi_CommitTime act),
                           BodySize := vi_BodySize act,
                           BodyRows := ucast (vi_BodyRows act),
                           NumErrors := ucast (vi_NumErrors act),
                           HeadRef := vi_Path act\<rparr>
                    else r) (Refs root) \<and>
        (vi_CommitCount act = 1 \<longrightarrow>
           (\<forall>r \<in> set (refsOf dp'). InitID r = vi_InitID act \<longrightarrow>
              TopIndex r = 1 \<and> HeadRef r = vi_Path act)))"
  by (auto simp add: handler_def updateChangeCursor_def copyUserAssociationList_def
      copyReferenceListWithReplacement_def copyRefs_replace finishBuilding_def
      changeCursorReplace_def Unix_def save_def refsOf_def Let_def
      split: prod.splits if_splits)

theorem handler_WriteCommit_replaces_entry_witness:
  "Root ex_cache = Some ex_root \<and>
   (case handler write_ok (Some ex_cache)
           \<lparr>ev_Type = ETLogbookWriteCommit, ev_Payload = PVersionInfo ex_commit\<rparr>
           no_effects of
      Inl f \<Rightarrow> False
    | Inr (dp', err, fx') \<Rightarrow>
        err = None \<and>
        map InitID (refsOf dp') = [''I1'', ''I2''] \<and>
        map TopIndex (refsOf dp') = [1, 0] \<and>
        map CursorIndex (refsOf dp') = [1, 0] \<and>
        map HeadRef (refsOf dp') = [''/hash/p1'', []] \<and>
        map BodyRows (refsOf dp') = [2, 0] \<and>
        map MetaTitle (refsOf dp') = [''World Bank'', []] \<and>
        map PrettyName (refsOf dp') = [''world_bank'', ''census''])"
  using handler_WriteCommit_replaces_entry [where d = ex_cache and root = ex_root and wr = write_ok and act = ex_commit
      and fx = no_effects]
  by (simp add: handler_def updateChangeCursor_def copyUserAssociationList_def
      copyReferenceListWithReplacement_def finishBuilding_def changeCursorReplace_def
      Unix_def save_def refsOf_def Let_def ex_cache_def ex_root_def ex_entry_def
      ex_commit_def ex_info_def VersionInfo_zero_def Time_zero_def write_ok_def
      no_effects_def logUpdateError_def)

subsection \<open>C6: deleting a dataset\<close>

text \<open>
  Claim C6. For every \<open>ETDatasetDeleteAll\<close> event handled by a dscache that has data,
  the handler returns nil and the rebuilt cache holds, in their order, exactly the
  entries whose InitID differs from the payload; resolving a reference by that
  InitID (a non-empty one: a reference with an empty InitID is resolved by name)
  against the resulting cache returns \<open>ErrRefNotFound\<close>.
\<close>

theorem handler_DeleteAll_omits_entry:
  "Root d = Some root \<Longrightarrow>
   (case handler wr (Some d)
           \<lparr>ev_Type = ETDatasetDeleteAll, ev_Payload = PString initID\<rparr> fx of
      Inl f \<Rightarrow> False
    | Inr (dp', err, fx') \<Rightarrow>
        err = None \<and>
        refsOf dp' = filter (\<lambda>r. InitID r \<noteq> initID) (Refs root) \<and>
        (initID \<noteq> [] \<longrightarrow>
           ResolveRef dp' (Some (ref\<lparr>ref_InitID := initID\<rparr>)) =
             Inr (Some (ref\<lparr>ref_InitID := initID\<rparr>), [], Some ErrRefNotFound)))"
  by (auto simp add: handler_def updateDeleteDataset_def copyUserAssociationList_def
      copyReferenceListWithReplacement_def copyRefs_omit finishBuilding_def save_def
      refsOf_def Let_def ResolveRef_def IsEmpty_def completeRef_def completeRefFrom_absent
      split: prod.splits if_splits)

theorem handler_DeleteAll_omits_entry_witness:
  "Root ex_cache = Some ex_root \<and>
   (case handler write_ok (Some ex_cache)
           \<lparr>ev_Type = ETDatasetDeleteAll, ev_Payload = PString ''I1''\<rparr> no_effects of
      Inl f \<Rightarrow> False
    | Inr (dp', err, fx') \<Rightarrow>
        err = None \<and>
        map InitID (refsOf dp') = [''I2''] \<and>
        ResolveRef dp' (Some \<lparr>ref_Username = [], ref_ProfileID = [], ref_Name = [],
                               ref_InitID = ''I1'', ref_Path = []\<rparr>) =
          Inr (Some \<lparr>ref_Username = [], ref_ProfileID = [], ref_Name = [],
                      ref_InitID = ''I1'', ref_Path = []\<rparr>, [], Some ErrRefNotFound))"
  using handler_DeleteAll_omits_entry [where d = ex_cache and root = ex_root and wr = write_ok and initID = "''I1''"
      and fx = no_effects
      and ref = "\<lparr>ref_Username = [], ref_ProfileID = [], ref_Name = [], ref_InitID = [],
        ref_Path = []\<rparr>"]
  by (simp add: handler_def updateDeleteDataset_def copyUserAssociationList_def
      copyReferenceListWithReplacement_def finishBuilding_def save_def refsOf_def Let_def
      ResolveRef_def IsEmpty_def completeRef_def ex_cache_def ex_root_def ex_entry_def
      write_ok_def no_effects_def logUpdateError_def)

subsection \<open>C7: the length of the profile ID\<close>

text \<open>
  Claim C7. For every \<open>ETDatasetNameInit\<close> event whose payload \<open>ProfileID\<close> does
  not have length 46, the handler rejects the event with \<open>ErrInvalidProfileID\<close> and
  adds no entry, whether the cache is empty or not.

  An empty cache that is not enabled to create itself returns before the profile ID
  is looked at: with the profile ID \<open>short\<close> the update returns nil, not
  \<open>ErrInvalidProfileID\<close>, and nothing is logged.
\<close>

theorem NameInit_invalid_profile_counterexample:
  "length (vi_ProfileID (ex_info ''I3'' ''short'' ''wbp'')) \<noteq> 46 \<and>
   updateInitDataset write_ok (Some ex_empty) (ex_info ''I3'' ''short'' ''wbp'') no_effects
     = Inr (Some ex_empty, None, no_effects) \<and>
   handler write_ok (Some ex_empty)
     \<lparr>ev_Type = ETDatasetNameInit,
      ev_Payload = PVersionInfo (ex_info ''I3'' ''short'' ''wbp'')\<rparr> no_effects
     = Inr (Some ex_empty, None, no_effects)"
  by (simp add: handler_def updateInitDataset_def ex_empty_def ex_info_def
      VersionInfo_zero_def logUpdateError_def no_effects_def)

text \<open>
  Claim C7, amended. For every \<open>ETDatasetNameInit\<close> event whose payload
  \<open>ProfileID\<close> does not have length 46 and that reaches an empty (non-nil) cache, no
  entry is added and nothing is saved: the cache stays empty. The update returns
  \<open>ErrInvalidProfileID\<close> when the cache is enabled to create itself and nil when it
  is not; the handler logs the error it got and returns nil in both cases.
\<close>

theorem NameInit_invalid_profile_on_empty_cache:
  "Root d = None \<Longrightarrow> length (vi_ProfileID act) \<noteq> 46 \<Longrightarrow>
   updateInitDataset wr (Some d) act fx =
     Inr (Some d, if CreateNewEnabled d then Some ErrInvalidProfileID else None, fx) \<and>
   handler wr (Some d) \<lparr>ev_Type = ETDatasetNameInit, ev_Payload = PVersionInfo act\<rparr> fx =
     Inr (Some d, None,
          if CreateNewEnabled d
          then fx\<lparr>log_lines := log_lines fx @ [LogError ErrInvalidProfileID]\<rparr> else fx)"
  by (simp add: handler_def updateInitDataset_def validateProfileID_def logUpdateError_def)

theorem NameInit_invalid_profile_on_empty_cache_witness:
  "Root (ex_empty\<lparr>CreateNewEnabled := True\<rparr>) = None \<and>
   length (vi_ProfileID (ex_info ''I3'' ''short'' ''wbp'')) \<noteq> 46 \<and>
   updateInitDataset write_ok (Some (ex_empty\<lparr>CreateNewEnabled := True\<rparr>))
       (ex_info ''I3'' ''short'' ''wbp'') no_effects =
     Inr (Some (ex_empty\<lparr>CreateNewEnabled := True\<rparr>), Some ErrInvalidProfileID, no_effects) \<and>
   handler write_ok (Some (ex_empty\<lparr>CreateNewEnabled := True\<rparr>))
       \<lparr>ev_Type = ETDatasetNameInit,
        ev_Payload = PVersionInfo (ex_info ''I3'' ''short'' ''wbp'')\<rparr> no_effects =
     Inr (Some (ex_empty\<lparr>CreateNewEnabled := True\<rparr>), None,
          \<lparr>fs_ops = [], log_lines = [LogError ErrInvalidProfileID]\<rparr>)"
  using NameInit_invalid_profile_on_empty_cache
      [of "ex_empty\<lparr>CreateNewEnabled := True\<rparr>" "ex_info ''I3'' ''short'' ''wbp''"
          write_ok no_effects]
  by (simp add: ex_empty_def ex_info_def VersionInfo_zero_def no_effects_def)

subsection \<open>C8: offset and limit of a workflow listing\<close>

text \<open>
  Claim C8. For every workflow store and owner, \<open>List\<close> and \<open>ListDeployed\<close> return
  all items (all deployed items) for limit \<open>-1\<close> from offset 0, the empty list for
  limit 0, and the empty list without an error for an offset at or past the end; a
  limit below \<open>-1\<close> fails with the message \<open>limit of <n> is out of bounds\<close>, a
  negative offset with the message \<open>offset of <n> is out of bounds\<close>, and when both
  are out of bounds the call fails with one of the two messages.
\<close>

theorem List_offset_limit:
  "List_Workflows store owner (WithOffsetLimit 0 (- 1)) = Inr store \<and>
   ListDeployed store owner (WithOffsetLimit 0 (- 1)) = Inr (filter wf_Active store) \<and>
   (0 \<le> off \<longrightarrow>
      List_Workflows store owner (WithOffsetLimit off 0) = Inr [] \<and>
      ListDeployed store owner (WithOffsetLimit off 0) = Inr []) \<and>
   (int (length store) \<le> off \<and> - 1 \<le> lim \<longrightarrow>
      List_Workflows store owner (WithOffsetLimit off lim) = Inr [] \<and>
      ListDeployed store owner (WithOffsetLimit off lim) = Inr []) \<and>
   (lim < - 1 \<and> 0 \<le> off \<longrightarrow>
      List_Workflows store owner (WithOffsetLimit off lim) =
        Inl (ErrMessage (''limit of '' @ show_int lim @ '' is out of bounds'')) \<and>
      ListDeployed store owner (WithOffsetLimit off lim) =
        Inl (ErrMessage (''limit of '' @ show_int lim @ '' is out of bounds''))) \<and>
   (off < 0 \<and> - 1 \<le> lim \<longrightarrow>
      List_Workflows store owner (WithOffsetLimit off lim) =
        Inl (ErrMessage (''offset of '' @ show_int off @ '' is out of bounds'')) \<and>
      ListDeployed store owner (WithOffsetLimit off lim) =
        Inl (ErrMessage (''offset of '' @ show_int off @ '' is out of bounds''))) \<and>
   (lim < - 1 \<or> off < 0 \<longrightarrow>
      List_Workflows store owner (WithOffsetLimit off lim) \<in>
        {Inl (ErrMessage (''limit of '' @ show_int lim @ '' is out of bounds'')),
         Inl (ErrMessage (''offset of '' @ show_int off @ '' is out of bounds''))} \<and>
      ListDeployed store owner (WithOffsetLimit off lim) \<in>
        {Inl (ErrMessage (''limit of '' @ show_int lim @ '' is out of bounds'')),
         Inl (ErrMessage (''offset of '' @ show_int off @ '' is out of bounds''))})"
proof -
  have len: "length (filter wf_Active store) \<le> length store"
    by simp
  have past: "int (length store) \<le> off \<Longrightarrow> length (filter wf_Active store) \<le> nat off"
    using len by linarith
  show ?thesis
    using past
    by (auto simp add: List_Workflows_def ListDeployed_def listPage_def WithOffsetLimit_def)
qed

theorem List_offset_limit_witness:
  "List_Workflows ex_workflows ''test_owner'' (WithOffsetLimit 0 (- 1)) = Inr ex_workflows \<and>
   map wf_ID (projr (ListDeployed ex_workflows ''test_owner'' (WithOffsetLimit 0 (- 1))))
     = [''w2'', ''w0''] \<and>
   List_Workflows ex_workflows ''test_owner'' (WithOffsetLimit 0 0) = Inr [] \<and>
   ListDeployed ex_workflows ''test_owner'' (WithOffsetLimit 100 10) = Inr [] \<and>
   List_Workflows ex_workflows ''test_owner'' (WithOffsetLimit 0 (- 10))
     = Inl (ErrMessage ''limit of -10 is out of bounds'') \<and>
   ListDeployed ex_workflows ''test_owner'' (WithOffsetLimit (- 1) 0)
     = Inl (ErrMessage ''offset of -1 is out of bounds'')"
  using
    List_offset_limit [where store = ex_workflows and owner = "''test_owner''"
      and off = 0 and lim = "- 10"]
    List_offset_limit [where store = ex_workflows and owner = "''test_owner''"
      and off = 100 and lim = 10]
    List_offset_limit [where store = ex_workflows and owner = "''test_owner''"
      and off = "- 1" and lim = 0]
  by (simp add: ex_workflows_def show_int_def)

subsection \<open>C9: saving after an update\<close>

text \<open>
  Claim C9. After every dscache mutation the new buffer is persisted atomically, by
  writing a temporary file and renaming it over the cache file, and a failure to
  persist does not make the handler report an error.

  \<open>save\<close> is one call of \<open>ioutil.WriteFile\<close> on the cache file itself. After a
  commit on the example cache the only file system call is that write, with the new
  buffer, on \<open>dscache.qfb\<close>: no other file is written and nothing is renamed.
\<close>

theorem save_writes_in_place_counterexample:
  "(case handler write_ok (Some ex_cache)
           \<lparr>ev_Type = ETLogbookWriteCommit, ev_Payload = PVersionInfo ex_commit\<rparr>
           no_effects of
      Inl f \<Rightarrow> False
    | Inr (dp', err, fx') \<Rightarrow>
        (case dp' of
           None \<Rightarrow> False
         | Some d' \<Rightarrow>
             Filename d' = ''dscache.qfb'' \<and> Buffer d' \<noteq> Buffer ex_cache \<and>
             fs_ops fx' = [WriteFile ''dscache.qfb'' (Buffer d')]))"
  by (simp add: handler_def updateChangeCursor_def copyUserAssociationList_def
      copyReferenceListWithReplacement_def finishBuilding_def changeCursorReplace_def
      Unix_def save_def Let_def ex_cache_def ex_root_def ex_entry_def
      ex_commit_def ex_info_def VersionInfo_zero_def Time_zero_def write_ok_def
      no_effects_def logUpdateError_def)

text \<open>
  Claim C9, amended. After every dscache mutation (a commit or a delete on a cache
  that has data, a name initialization on a cache that has data and at least as many
  entries as users, or on an empty cache that may create itself, given a profile ID
  of length 46) the new buffer is persisted by a single write to the cache file itself
  (by no call at all when the cache has no file name), and whatever that write
  returns, the handler returns nil.
\<close>

theorem handler_saves_by_one_write:
  "(Root d = Some root \<longrightarrow>
      savedByOneWrite d fx
        (handler wr (Some d)
           \<lparr>ev_Type = ETLogbookWriteCommit, ev_Payload = PVersionInfo act\<rparr> fx) \<and>
      savedByOneWrite d fx
        (handler wr (Some d)
           \<lparr>ev_Type = ETDatasetDeleteAll, ev_Payload = PString initID\<rparr> fx)) \<and>
   (Root d = Some root \<and> UsersLength root \<le> RefsLength root \<longrightarrow>
      savedByOneWrite d fx
        (handler wr (Some d)
           \<lparr>ev_Type = ETDatasetNameInit, ev_Payload = PVersionInfo act\<rparr> fx)) \<and>
   (Root d = None \<and> CreateNewEnabled d \<and> length (vi_ProfileID act) = 46 \<longrightarrow>
      savedByOneWrite d fx
        (handler wr (Some d)
           \<lparr>ev_Type = ETDatasetNameInit, ev_Payload = PVersionInfo act\<rparr> fx))"
  by (simp add: WriteCommit_saved DeleteAll_saved NameInit_saved NameInit_created_saved)

theorem handler_saves_by_one_write_witness:
  "Root ex_cache = Some ex_root \<and>
   (case handler write_fails (Some ex_cache)
           \<lparr>ev_Type = ETDatasetDeleteAll, ev_Payload = PString ''I1''\<rparr> no_effects of
      Inl f \<Rightarrow> False
    | Inr (dp', err, fx') \<Rightarrow>
        err = None \<and>
        (case dp' of
           None \<Rightarrow> False
         | Some d' \<Rightarrow>
             map InitID (refsOf dp') = [''I2''] \<and>
             fs_ops fx' = [WriteFile ''dscache.qfb'' (Buffer d')] \<and>
             log_lines fx' = [LogError (ErrExternal ''no space left on device'')]))"
  using handler_saves_by_one_write [where d = ex_cache and root = ex_root
      and wr = write_fails and initID = "''I1''" and fx = no_effects and act = ex_commit]
  by (simp add: handler_def updateDeleteDataset_def copyUserAssociationList_def
      copyReferenceListWithReplacement_def finishBuilding_def save_def refsOf_def Let_def
      ex_cache_def ex_root_def ex_entry_def write_fails_def no_effects_def
      logUpdateError_def)

subsection \<open>C10: the client after a failed round trip\<close>

text \<open>
  Claim C10. For every call of \<open>HTTPClient.put\<close> or \<open>HTTPClient.del\<close> in which the
  request is built, the author headers are added and the transport then returns an
  error together with a nil response, the function reads \<open>StatusCode\<close> through the nil
  response before it looks at the error: the call panics and the transport error is
  not returned.
\<close>

theorem put_del_panic_on_nil_response:
  "(NewRequest env ''PUT'' url = None \<and>
    addAuthorHTTPHeaders env Map.empty author = (h, None) \<and>
    Do env \<lparr>rq_Method = ''PUT'', rq_URL = url, rq_Header = h, rq_Body = body\<rparr>
      = (None, Some err)
    \<longrightarrow> put env url author body = Inl NilPointerDereference) \<and>
   (NewRequest env ''DELETE'' (url @ ''?ref='' @ RefString env ref) = None \<and>
    addAuthorHTTPHeaders env Map.empty author = (h, None) \<and>
    Do env \<lparr>rq_Method = ''DELETE'', rq_URL = url @ ''?ref='' @ RefString env ref,
             rq_Header = h, rq_Body = []\<rparr> = (None, Some err)
    \<longrightarrow> del env url author ref = Inl NilPointerDereference)"
  by (simp add: put_def del_def Let_def)

theorem put_del_panic_on_nil_response_witness:
  "Do ex_env \<lparr>rq_Method = ''PUT'', rq_URL = ''http://remote/logsync'',
      rq_Header = Map.empty(''AuthorID'' \<mapsto> ''QmServer'', ''PubKey'' \<mapsto> ''server-key''),
      rq_Body = ''log-bytes''\<rparr>
     = (None, Some (ErrExternal ''dial tcp: connection refused'')) \<and>
   put ex_env ''http://remote/logsync'' ex_author ''log-bytes'' = Inl NilPointerDereference \<and>
   del ex_env ''http://remote/logsync'' ex_author
       \<lparr>ref_Username = ''alice'', ref_ProfileID = [], ref_Name = ''world_bank'',
        ref_InitID = [], ref_Path = []\<rparr> = Inl NilPointerDereference"
  using put_del_panic_on_nil_response [of ex_env "''http://remote/logsync''" ex_author
      "Map.empty(''AuthorID'' \<mapsto> ''QmServer'', ''PubKey'' \<mapsto> ''server-key'')"
      "''log-bytes''" "ErrExternal ''dial tcp: connection refused''"
      "\<lparr>ref_Username = ''alice'', ref_ProfileID = [], ref_Name = ''world_bank'',
        ref_InitID = [], ref_Path = []\<rparr>"]
  by (simp add: ex_env_def ex_author_def addAuthorHTTPHeaders_def Set_def)

end
